theory Spec2Isabelle
  imports Main "HOL-Library.AList" "HOL-Library.Sublist"
begin

section \<open>RentWheels server: the request handlers of index.js\<close>

text \<open>
  The development embeds the Express handlers of \<^verbatim>\<open>src/index.js\<close>: the access guard
  \<^verbatim>\<open>verifyJWT\<close>, user registration, the listing routes, the booking routes and the
  search route. A handler is a function from the store and the request to the new store
  and the response. Three collaborators of the handlers are libraries whose code is not in
  the repository:
  \<^item> the token library (\<^verbatim>\<open>jwt.verify\<close>), taken as a parameter \<open>jwt_verify\<close>;
  \<^item> the identifier constructor (\<^verbatim>\<open>new ObjectId(x)\<close>), taken as a parameter
    \<open>ObjectId\<close> that yields an identifier, a newly generated one, or throws;
  \<^item> the document store, modelled from the specification's description of it: collections
    of documents with insert, find by field equality, update of the first match and
    delete of the first match, every call completing.
\<close>

subsection \<open>JSON values and documents\<close>

text \<open>
  Field values are the scalar JSON values. Array- and object-valued fields, for which the
  store's filter language has rules of its own, are outside the model; numbers are the
  integers. A document is the list of its fields in order; \<open>map_of\<close> reads a field, the
  result \<open>None\<close> standing for JavaScript's \<^verbatim>\<open>undefined\<close>.
\<close>

datatype jval = JNull | JBool bool | JNum int | JStr string

type_synonym doc = "(string \<times> jval) list"

text \<open>
  A stored document carries the identifier the store assigned to it (\<^verbatim>\<open>_id\<close>) beside the
  fields it was inserted with. An identifier is the number its 24 hexadecimal digits denote.
\<close>

record stored =
  oid :: nat
  content :: doc

record store =
  carsCollection :: "stored list"
  bookingsCollection :: "stored list"
  usersCollection :: "stored list"
  next_oid :: nat

subsection \<open>The document store\<close>

text \<open>
  The store is a service outside the repository. Its operations are modelled from the
  specification, which describes it (section 1) as a document collection interface with
  insert, find with a filter, update and delete, each call returning a result. Every call
  is taken to complete, and a request body is taken to carry no \<^verbatim>\<open>_id\<close> of its own:
  identifiers are assigned by the store (section 3).
\<close>

text \<open>
  Modelled from the spec: the value a filter compares. The driver sends an
  \<^verbatim>\<open>undefined\<close> filter value as null, and a null filter value selects the documents
  whose field is null or missing.
\<close>

definition or_null :: "jval option \<Rightarrow> jval" where
  "or_null v = (case v of None \<Rightarrow> JNull | Some x \<Rightarrow> x)"

text \<open>
  Modelled from the spec: the filter \<^verbatim>\<open>{k: v}\<close> of the store's find, which selects
  the documents whose field \<open>k\<close> equals \<open>v\<close>.
\<close>

definition field_is :: "string \<Rightarrow> jval option \<Rightarrow> stored \<Rightarrow> bool" where
  "field_is k v r = (or_null (map_of (content r) k) = or_null v)"

text \<open>
  Modelled from the spec: the store's \<^verbatim>\<open>findOne\<close>, the first document of the
  collection that the filter selects, or null.
\<close>

definition findOne :: "(stored \<Rightarrow> bool) \<Rightarrow> stored list \<Rightarrow> stored option" where
  "findOne p c = List.find p c"

text \<open>
  Modelled from the spec: the store's \<^verbatim>\<open>find(...).toArray()\<close>, all documents that the
  filter selects, in the collection's order.
\<close>

definition find_toArray :: "(stored \<Rightarrow> bool) \<Rightarrow> stored list \<Rightarrow> stored list" where
  "find_toArray p c = filter p c"

text \<open>
  Modelled from the spec: the store's \<^verbatim>\<open>insertOne\<close>. The document is added as it is,
  under the new identifier \<open>n\<close>.
\<close>

definition insertOne :: "nat \<Rightarrow> doc \<Rightarrow> stored list \<Rightarrow> stored list" where
  "insertOne n d c = c @ [\<lparr>oid = n, content = d\<rparr>]"

text \<open>
  Modelled from the spec: the update \<^verbatim>\<open>{$set: patch}\<close>, which merges the patch into
  the document: every field of the patch is written, a field the document has in its
  place and a new field at the end.
\<close>

definition set_fields :: "doc \<Rightarrow> doc \<Rightarrow> doc" where
  "set_fields patch d = fold (\<lambda>kv. AList.update (fst kv) (snd kv)) patch d"

text \<open>
  Modelled from the spec: the store's \<^verbatim>\<open>updateOne\<close>, which changes the first document
  that the filter selects and leaves a collection without such a document as it is.
\<close>

fun updateOne :: "(stored \<Rightarrow> bool) \<Rightarrow> (doc \<Rightarrow> doc) \<Rightarrow> stored list \<Rightarrow> stored list" where
  "updateOne p f [] = []"
| "updateOne p f (r # rs) =
     (if p r then r\<lparr>content := f (content r)\<rparr> # rs else r # updateOne p f rs)"

text \<open>
  Modelled from the spec: the store's \<^verbatim>\<open>deleteOne\<close>, which removes the first document
  that the filter selects.
\<close>

fun deleteOne :: "(stored \<Rightarrow> bool) \<Rightarrow> stored list \<Rightarrow> stored list" where
  "deleteOne p [] = []"
| "deleteOne p (r # rs) = (if p r then rs else r # deleteOne p rs)"

text \<open>
  Modelled from the spec: the counts in the results of \<^verbatim>\<open>updateOne\<close> and
  \<^verbatim>\<open>deleteOne\<close> (section 4.3: a call that found nothing is signalled by a count of 0).
\<close>

definition matchedCount :: "(stored \<Rightarrow> bool) \<Rightarrow> stored list \<Rightarrow> nat" where
  "matchedCount p c = (case findOne p c of None \<Rightarrow> 0 | Some r \<Rightarrow> 1)"

definition modifiedCount :: "(stored \<Rightarrow> bool) \<Rightarrow> (doc \<Rightarrow> doc) \<Rightarrow> stored list \<Rightarrow> nat" where
  "modifiedCount p f c =
     (case findOne p c of None \<Rightarrow> 0 | Some r \<Rightarrow> if f (content r) = content r then 0 else 1)"

subsection \<open>Requests and responses\<close>

text \<open>
  The parts of an Express request the handlers read: the \<^verbatim>\<open>Authorization\<close> header, the
  query string's parameters, the \<^verbatim>\<open>:id\<close> path parameter, the JSON body, and the claim the
  guard attaches (\<^verbatim>\<open>req.decoded\<close>).
\<close>

record request =
  authorization :: "string option"
  query :: "(string \<times> string) list"
  params_id :: string
  body :: doc
  decoded :: "doc option"

text \<open>
  A response is an HTTP status with what was sent: a \<^verbatim>\<open>{message}\<close> object, the store's
  result of an insert (\<^verbatim>\<open>insertedId\<close>), of an update (\<^verbatim>\<open>matchedCount\<close>,
  \<^verbatim>\<open>modifiedCount\<close>), of a delete (\<^verbatim>\<open>deletedCount\<close>), or an array of documents.
  \<open>Unhandled\<close> is the outcome of a handler that throws: its promise is rejected and the
  handler sends nothing.
\<close>

datatype payload =
    Message string
  | InsertResult nat
  | UpdateResult nat nat
  | DeleteResult nat
  | Documents "stored list"

datatype response = Reply nat payload | Unhandled

text \<open>
  What \<^verbatim>\<open>new ObjectId(x)\<close> does with its argument: it reads an identifier from it,
  generates a new identifier (equal to no stored one), or throws.
\<close>

datatype oid_result = Parsed nat | Generated | Throws

subsection \<open>The access guard\<close>

text \<open>
  \<^verbatim>\<open>authHeader.split(' ')\<close>: the pieces between single spaces; \<open>nth_opt\<close> is JavaScript's
  indexing, \<^verbatim>\<open>undefined\<close> past the end.
\<close>

fun split_acc :: "char \<Rightarrow> string \<Rightarrow> string \<Rightarrow> string list" where
  "split_acc c acc [] = [rev acc]"
| "split_acc c acc (x # xs) =
     (if x = c then rev acc # split_acc c [] xs else split_acc c (x # acc) xs)"

definition split :: "char \<Rightarrow> string \<Rightarrow> string list" where
  "split c s = split_acc c [] s"

definition nth_opt :: "'a list \<Rightarrow> nat \<Rightarrow> 'a option" where
  "nth_opt xs i = (if i < length xs then Some (xs ! i) else None)"

text \<open>
  \<^verbatim>\<open>verifyJWT\<close> (lines 28-38). \<^verbatim>\<open>!authHeader\<close> holds for a missing header and for the
  empty string. \<open>jwt_verify\<close> yields the decoded claim, or \<open>None\<close> for the error.
\<close>

definition verifyJWT :: "(string option \<Rightarrow> doc option) \<Rightarrow> request \<Rightarrow> response + request" where
  "verifyJWT jwt_verify req =
     (case authorization req of
        None \<Rightarrow> Inl (Reply 401 (Message ''Unauthorized access''))
      | Some authHeader \<Rightarrow>
          if authHeader = [] then Inl (Reply 401 (Message ''Unauthorized access''))
          else
            (let token = nth_opt (split CHR '' '' authHeader) 1 in
             case jwt_verify token of
               None \<Rightarrow> Inl (Reply 403 (Message ''Forbidden access''))
             | Some d \<Rightarrow> Inr (req\<lparr>decoded := Some d\<rparr>)))"

text \<open>A guarded route: the handler runs on the request the guard passes on.\<close>

definition guarded ::
  "(string option \<Rightarrow> doc option) \<Rightarrow> (store \<Rightarrow> request \<Rightarrow> store \<times> response) \<Rightarrow>
   store \<Rightarrow> request \<Rightarrow> store \<times> response" where
  "guarded jwt_verify handler s req =
     (case verifyJWT jwt_verify req of
        Inl r \<Rightarrow> (s, r)
      | Inr req' \<Rightarrow> handler s req')"

subsection \<open>Users\<close>

text \<open>\<^verbatim>\<open>POST /users\<close> (lines 67-73).\<close>

definition post_users :: "store \<Rightarrow> request \<Rightarrow> store \<times> response" where
  "post_users s req =
     (let user = body req in
      case findOne (field_is ''email'' (map_of user ''email'')) (usersCollection s) of
        Some existingUser \<Rightarrow> (s, Reply 200 (Message ''User already exists''))
      | None \<Rightarrow>
          (s\<lparr>usersCollection := insertOne (next_oid s) user (usersCollection s),
             next_oid := Suc (next_oid s)\<rparr>,
           Reply 200 (InsertResult (next_oid s))))"

text \<open>\<^verbatim>\<open>GET /users\<close> (lines 76-79).\<close>

definition get_users :: "store \<Rightarrow> request \<Rightarrow> store \<times> response" where
  "get_users s req = (s, Reply 200 (Documents (find_toArray (\<lambda>r. True) (usersCollection s))))"

subsection \<open>Listings\<close>

text \<open>\<^verbatim>\<open>POST /cars\<close> (lines 86-90), behind the guard.\<close>

definition post_cars :: "store \<Rightarrow> request \<Rightarrow> store \<times> response" where
  "post_cars s req =
     (let car = body req in
      (s\<lparr>carsCollection := insertOne (next_oid s) car (carsCollection s),
         next_oid := Suc (next_oid s)\<rparr>,
       Reply 200 (InsertResult (next_oid s))))"

text \<open>
  \<^verbatim>\<open>GET /my-listings\<close> (lines 106-111), behind the guard. \<^verbatim>\<open>req.decoded\<close> is read
  without a check, so a request that carries no claim makes the handler throw; \<^verbatim>\<open>!==\<close>
  on scalars and \<^verbatim>\<open>undefined\<close> is inequality of the values.
\<close>

definition get_my_listings :: "store \<Rightarrow> request \<Rightarrow> store \<times> response" where
  "get_my_listings s req =
     (case decoded req of
        None \<Rightarrow> (s, Unhandled)
      | Some d \<Rightarrow>
          (let email = map_option JStr (map_of (query req) ''email'') in
           if map_of d ''email'' \<noteq> email then (s, Reply 403 (Message ''Forbidden access''))
           else (s, Reply 200
                   (Documents (find_toArray (field_is ''providerEmail'' email) (carsCollection s))))))"

text \<open>\<^verbatim>\<open>PUT /cars/:id\<close> (lines 114-122), behind the guard.\<close>

definition put_cars ::
  "(jval option \<Rightarrow> oid_result) \<Rightarrow> store \<Rightarrow> request \<Rightarrow> store \<times> response" where
  "put_cars ObjectId s req =
     (let id = params_id req; updatedCar = body req in
      case ObjectId (Some (JStr id)) of
        Throws \<Rightarrow> (s, Unhandled)
      | Generated \<Rightarrow> (s, Reply 200 (UpdateResult 0 0))
      | Parsed i \<Rightarrow>
          (s\<lparr>carsCollection :=
               updateOne (\<lambda>r. oid r = i) (set_fields updatedCar) (carsCollection s)\<rparr>,
           Reply 200
             (UpdateResult (matchedCount (\<lambda>r. oid r = i) (carsCollection s))
                (modifiedCount (\<lambda>r. oid r = i) (set_fields updatedCar) (carsCollection s)))))"

text \<open>\<^verbatim>\<open>DELETE /cars/:id\<close> (lines 125-129), behind the guard.\<close>

definition delete_cars ::
  "(jval option \<Rightarrow> oid_result) \<Rightarrow> store \<Rightarrow> request \<Rightarrow> store \<times> response" where
  "delete_cars ObjectId s req =
     (let id = params_id req in
      case ObjectId (Some (JStr id)) of
        Throws \<Rightarrow> (s, Unhandled)
      | Generated \<Rightarrow> (s, Reply 200 (DeleteResult 0))
      | Parsed i \<Rightarrow>
          (s\<lparr>carsCollection := deleteOne (\<lambda>r. oid r = i) (carsCollection s)\<rparr>,
           Reply 200 (DeleteResult (matchedCount (\<lambda>r. oid r = i) (carsCollection s)))))"

subsection \<open>Bookings\<close>

text \<open>The filter of the double-booking check (lines 139-142).\<close>

definition booked_filter :: "doc \<Rightarrow> stored \<Rightarrow> bool" where
  "booked_filter booking r =
     (field_is ''carId'' (map_of booking ''carId'') r \<and>
      field_is ''status'' (Some (JStr ''Booked'')) r)"

text \<open>
  \<^verbatim>\<open>POST /bookings\<close> (lines 135-152), behind the guard. The identifier is constructed
  after the insert has completed, while the arguments of \<^verbatim>\<open>updateOne\<close> are evaluated.
\<close>

definition post_bookings ::
  "(jval option \<Rightarrow> oid_result) \<Rightarrow> store \<Rightarrow> request \<Rightarrow> store \<times> response" where
  "post_bookings ObjectId s req =
     (let booking = body req in
      case findOne (booked_filter booking) (bookingsCollection s) of
        Some existingBooking \<Rightarrow> (s, Reply 400 (Message ''This car is already booked''))
      | None \<Rightarrow>
          (let bookingResult = next_oid s;
               s1 = s\<lparr>bookingsCollection := insertOne (next_oid s) booking (bookingsCollection s),
                      next_oid := Suc (next_oid s)\<rparr>
           in case ObjectId (map_of booking ''carId'') of
                Throws \<Rightarrow> (s1, Unhandled)
              | Generated \<Rightarrow> (s1, Reply 200 (InsertResult bookingResult))
              | Parsed i \<Rightarrow>
                  (s1\<lparr>carsCollection :=
                        updateOne (\<lambda>r. oid r = i) (set_fields [(''status'', JStr ''Booked'')])
                          (carsCollection s1)\<rparr>,
                   Reply 200 (InsertResult bookingResult))))"

text \<open>\<^verbatim>\<open>GET /bookings\<close> (lines 155-160), behind the guard.\<close>

definition get_bookings :: "store \<Rightarrow> request \<Rightarrow> store \<times> response" where
  "get_bookings s req =
     (case decoded req of
        None \<Rightarrow> (s, Unhandled)
      | Some d \<Rightarrow>
          (let email = map_option JStr (map_of (query req) ''email'') in
           if map_of d ''email'' \<noteq> email then (s, Reply 403 (Message ''Forbidden access''))
           else (s, Reply 200
                   (Documents (find_toArray (field_is ''userEmail'' email) (bookingsCollection s))))))"

subsection \<open>Search\<close>

text \<open>
  \<^verbatim>\<open>GET /search\<close> hands the query text to the store as a regular expression with the
  option \<^verbatim>\<open>i\<close>. The fragment of the expression language modelled here has the literal
  characters and the dot; a pattern that uses another metacharacter is outside the
  fragment (\<open>rx_compile\<close> yields \<open>None\<close> for it, and so does the handler's model).
  Texts are taken to be ASCII: letters are compared without case on the ASCII letters, and
  the dot is any character but the line feed. The expression is not anchored: it may match
  anywhere in the text.
\<close>

datatype rx_item = Lit char | AnyChar

definition rx_special :: "char list" where
  "rx_special =
     [CHR 0x5C, CHR ''^'', CHR ''$'', CHR ''.'', CHR ''|'', CHR ''?'', CHR ''*'', CHR ''+'',
      CHR ''('', CHR '')'', CHR ''['', CHR '']'', CHR ''{'', CHR ''}'']"

fun rx_compile :: "string \<Rightarrow> rx_item list option" where
  "rx_compile [] = Some []"
| "rx_compile (c # cs) =
     (if c = CHR ''.'' then map_option ((#) AnyChar) (rx_compile cs)
      else if c \<in> set rx_special then None
      else map_option ((#) (Lit c)) (rx_compile cs))"

definition to_lower :: "char \<Rightarrow> char" where
  "to_lower c =
     (case map_of (zip ''ABCDEFGHIJKLMNOPQRSTUVWXYZ'' ''abcdefghijklmnopqrstuvwxyz'') c of
        None \<Rightarrow> c
      | Some l \<Rightarrow> l)"

fun rx_item_ok :: "rx_item \<Rightarrow> char \<Rightarrow> bool" where
  "rx_item_ok (Lit c) d = (to_lower c = to_lower d)"
| "rx_item_ok AnyChar d = (d \<noteq> CHR 0x0A)"

fun rx_at :: "rx_item list \<Rightarrow> string \<Rightarrow> bool" where
  "rx_at [] ds = True"
| "rx_at (p # ps) [] = False"
| "rx_at (p # ps) (d # ds) = (rx_item_ok p d \<and> rx_at ps ds)"

fun rx_search :: "rx_item list \<Rightarrow> string \<Rightarrow> bool" where
  "rx_search ps [] = rx_at ps []"
| "rx_search ps (d # ds) = (rx_at ps (d # ds) \<or> rx_search ps ds)"

text \<open>The filter \<^verbatim>\<open>{name: {$regex: query, $options: 'i'}}\<close>: only a string can match.\<close>

definition name_regex :: "rx_item list \<Rightarrow> stored \<Rightarrow> bool" where
  "name_regex ps r =
     (case map_of (content r) ''name'' of
        Some (JStr n) \<Rightarrow> rx_search ps n
      | _ \<Rightarrow> False)"

text \<open>
  \<^verbatim>\<open>GET /search\<close> (lines 167-173). \<^verbatim>\<open>req.query.q || ''\<close> is the empty string for a
  missing parameter and for an empty one.
\<close>

definition get_search :: "store \<Rightarrow> request \<Rightarrow> (store \<times> response) option" where
  "get_search s req =
     (let queryText = (case map_of (query req) ''q'' of
                     None \<Rightarrow> []
                   | Some q \<Rightarrow> if q = [] then [] else q)
      in case rx_compile queryText of
           None \<Rightarrow> None
         | Some ps \<Rightarrow>
             Some (s, Reply 200 (Documents (find_toArray (name_regex ps) (carsCollection s)))))"

subsection \<open>Concurrent booking requests\<close>

text \<open>
  The handler of \<^verbatim>\<open>POST /bookings\<close> awaits three store calls: \<^verbatim>\<open>findOne\<close>,
  \<^verbatim>\<open>insertOne\<close> and \<^verbatim>\<open>updateOne\<close>. Between two awaits the code of one request runs
  alone, and each store call is atomic, so a run of several requests is an interleaving of
  their store calls. A stage says which call a request waits for; \<open>book_step\<close> performs
  that call and runs the handler up to its next await. A schedule names, step by step, the
  request whose pending call the store serves next.
\<close>

datatype stage = AwaitFindOne | AwaitInsertOne | AwaitUpdateOne nat | Finished response

definition book_step ::
  "(jval option \<Rightarrow> oid_result) \<Rightarrow> store \<Rightarrow> doc \<Rightarrow> stage \<Rightarrow> store \<times> stage" where
  "book_step ObjectId s booking st =
     (case st of
        AwaitFindOne \<Rightarrow>
          (case findOne (booked_filter booking) (bookingsCollection s) of
             Some existingBooking \<Rightarrow>
               (s, Finished (Reply 400 (Message ''This car is already booked'')))
           | None \<Rightarrow> (s, AwaitInsertOne))
      | AwaitInsertOne \<Rightarrow>
          (let bookingResult = next_oid s;
               s1 = s\<lparr>bookingsCollection := insertOne (next_oid s) booking (bookingsCollection s),
                      next_oid := Suc (next_oid s)\<rparr>
           in case ObjectId (map_of booking ''carId'') of
                Throws \<Rightarrow> (s1, Finished Unhandled)
              | _ \<Rightarrow> (s1, AwaitUpdateOne bookingResult))
      | AwaitUpdateOne bookingResult \<Rightarrow>
          (case ObjectId (map_of booking ''carId'') of
             Parsed i \<Rightarrow>
               (s\<lparr>carsCollection :=
                    updateOne (\<lambda>r. oid r = i) (set_fields [(''status'', JStr ''Booked'')])
                      (carsCollection s)\<rparr>,
                Finished (Reply 200 (InsertResult bookingResult)))
           | _ \<Rightarrow> (s, Finished (Reply 200 (InsertResult bookingResult))))
      | Finished r \<Rightarrow> (s, Finished r))"

fun run_schedule ::
  "(jval option \<Rightarrow> oid_result) \<Rightarrow> nat list \<Rightarrow> store \<times> (doc \<times> stage) list \<Rightarrow>
   store \<times> (doc \<times> stage) list" where
  "run_schedule ObjectId [] cfg = cfg"
| "run_schedule ObjectId (i # sched) (s, tasks) =
     (if i < length tasks
      then (case book_step ObjectId s (fst (tasks ! i)) (snd (tasks ! i)) of
              (s', st') \<Rightarrow> run_schedule ObjectId sched (s', tasks[i := (fst (tasks ! i), st')]))
      else run_schedule ObjectId sched (s, tasks))"

text \<open>Requests served one after the other, each to its end before the next begins.\<close>

fun serve_bookings ::
  "(jval option \<Rightarrow> oid_result) \<Rightarrow> store \<Rightarrow> request list \<Rightarrow> store \<times> response list" where
  "serve_bookings ObjectId s [] = (s, [])"
| "serve_bookings ObjectId s (req # reqs) =
     (case post_bookings ObjectId s req of
        (s1, r) \<Rightarrow>
          (case serve_bookings ObjectId s1 reqs of
             (s2, rs) \<Rightarrow> (s2, r # rs)))"

subsection \<open>Notions of the specification\<close>

text \<open>
  The listing's \<^verbatim>\<open>status\<close> field as the store holds it: \<open>None\<close> when no listing has the
  identifier, \<open>Some None\<close> when the listing has no such field.
\<close>

definition listing_status :: "store \<Rightarrow> nat \<Rightarrow> jval option option" where
  "listing_status s i =
     map_option (\<lambda>r. map_of (content r) ''status'') (findOne (\<lambda>r. oid r = i) (carsCollection s))"

text \<open>
  A booking record whose \<^verbatim>\<open>carId\<close> field is the value \<open>carId\<close> and whose status is
  \<^verbatim>\<open>Booked\<close>. The values are compared as the store compares them: a missing
  \<^verbatim>\<open>carId\<close> and null are equal, and two spellings of one identifier (its hexadecimal
  digits in upper and in lower case) are different values, although
  \<^verbatim>\<open>new ObjectId\<close> reads them as one identifier.
\<close>

definition booked_for :: "jval option \<Rightarrow> stored \<Rightarrow> bool" where
  "booked_for carId r =
     (or_null (map_of (content r) ''carId'') = or_null carId \<and>
      map_of (content r) ''status'' = Some (JStr ''Booked''))"

text \<open>The number of user records with a given email.\<close>

definition users_with_email :: "store \<Rightarrow> jval option \<Rightarrow> nat" where
  "users_with_email s e = length (filter (field_is ''email'' e) (usersCollection s))"

text \<open>
  The text of a header after its first space, when it has one; and the text between its
  first and its second space.
\<close>

definition after_first_space :: "string \<Rightarrow> string option" where
  "after_first_space h =
     (case dropWhile (\<lambda>c. c \<noteq> CHR '' '') h of
        [] \<Rightarrow> None
      | c # rest \<Rightarrow> Some rest)"

definition second_field :: "string \<Rightarrow> string option" where
  "second_field h = map_option (takeWhile (\<lambda>c. c \<noteq> CHR '' '')) (after_first_space h)"

text \<open>A listing whose name is a string that contains the text, letter case aside.\<close>

definition name_contains :: "string \<Rightarrow> stored \<Rightarrow> bool" where
  "name_contains x r =
     (case map_of (content r) ''name'' of
        Some (JStr n) \<Rightarrow> sublist (map to_lower x) (map to_lower n)
      | _ \<Rightarrow> False)"

subsection \<open>An identifier constructor for the examples\<close>

text \<open>
  Every version of the driver reads a string of 24 hexadecimal digits as the identifier
  they denote, generates an identifier when the argument is missing, null or a number, and
  throws on a string whose length is neither 12 nor 24 and on a boolean. \<open>hex_ObjectId\<close>
  does so, and throws on the strings of length 12 as the current driver does (older
  versions read them as twelve bytes); the examples use no such string.
\<close>

definition hex_digit :: "char \<Rightarrow> nat option" where
  "hex_digit c =
     map_of (zip ''0123456789abcdefABCDEF''
               [0, 1, 2, 3, 4, 5, 6, 7, 8, 9, 10, 11, 12, 13, 14, 15, 10, 11, 12, 13, 14, 15]) c"

fun hex_value :: "nat \<Rightarrow> string \<Rightarrow> nat option" where
  "hex_value acc [] = Some acc"
| "hex_value acc (c # cs) =
     (case hex_digit c of
        None \<Rightarrow> None
      | Some d \<Rightarrow> hex_value (16 * acc + d) cs)"

definition hex_ObjectId :: "jval option \<Rightarrow> oid_result" where
  "hex_ObjectId v =
     (case v of
        None \<Rightarrow> Generated
      | Some JNull \<Rightarrow> Generated
      | Some (JNum n) \<Rightarrow> Generated
      | Some (JBool b) \<Rightarrow> Throws
      | Some (JStr x) \<Rightarrow>
          if length x = 24
          then (case hex_value 0 x of None \<Rightarrow> Throws | Some i \<Rightarrow> Parsed i)
          else Throws)"

subsection \<open>Data for the examples\<close>

text \<open>A store with no documents, a request with no parts, and a token service that knows two tokens.\<close>

definition empty_store :: store where
  "empty_store = \<lparr>carsCollection = [], bookingsCollection = [], usersCollection = [], next_oid = 1\<rparr>"

definition blank_request :: request where
  "blank_request = \<lparr>authorization = None, query = [], params_id = [], body = [], decoded = None\<rparr>"

definition demo_verify :: "string option \<Rightarrow> doc option" where
  "demo_verify token =
     (if token = Some ''tokenA'' then Some [(''email'', JStr ''a@rent.io'')]
      else if token = Some ''tokenB'' then Some [(''email'', JStr ''b@rent.io'')]
      else None)"

text \<open>
  A store with two listings of two providers, Ann's booked by Bob and Bob's by Ann.
\<close>

definition two_owner_store :: store where
  "two_owner_store =
     \<lparr>carsCollection =
        [\<lparr>oid = 1, content = [(''name'', JStr ''Toyota Corolla''), (''providerEmail'', JStr ''a@rent.io'')]\<rparr>,
         \<lparr>oid = 2, content = [(''name'', JStr ''Honda Civic''), (''providerEmail'', JStr ''b@rent.io'')]\<rparr>],
      bookingsCollection =
        [\<lparr>oid = 3, content = [(''carId'', JStr ''000000000000000000000001''),
                                (''userEmail'', JStr ''b@rent.io''), (''status'', JStr ''Booked'')]\<rparr>,
         \<lparr>oid = 4, content = [(''carId'', JStr ''000000000000000000000002''),
                                (''userEmail'', JStr ''a@rent.io''), (''status'', JStr ''Booked'')]\<rparr>],
      usersCollection = [],
      next_oid = 5\<rparr>"

text \<open>A store in which Ann's listing is booked by Bob.\<close>

definition booked_store :: store where
  "booked_store =
     \<lparr>carsCollection =
        [\<lparr>oid = 1, content = [(''name'', JStr ''Toyota Corolla''), (''providerEmail'', JStr ''a@rent.io''),
                                (''status'', JStr ''Booked'')]\<rparr>],
      bookingsCollection =
        [\<lparr>oid = 2, content = [(''carId'', JStr ''000000000000000000000001''),
                                (''userEmail'', JStr ''b@rent.io''), (''status'', JStr ''Booked'')]\<rparr>],
      usersCollection = [],
      next_oid = 3\<rparr>"


section \<open>Properties of the handlers\<close>

subsection \<open>The store's operations\<close>

lemma findOne_None: "findOne p c = None \<longleftrightarrow> \<not> (\<exists>r \<in> set c. p r)"
  by (auto simp: findOne_def find_None_iff)

lemma findOne_append:
  "findOne p (c @ c') = (case findOne p c of None \<Rightarrow> findOne p c' | Some r \<Rightarrow> Some r)"
  by (induction c) (auto simp: findOne_def)

lemma map_of_set_fields:
  "map_of (set_fields patch d) k =
     (case map_of (rev patch) k of None \<Rightarrow> map_of d k | Some v \<Rightarrow> Some v)"
  unfolding set_fields_def
proof (induction patch arbitrary: d)
  case Nil
  then show ?case by simp
next
  case (Cons kv patch)
  show ?case
    by (simp add: Cons update_conv' map_add_def split: option.splits)
qed

lemma map_of_rev_None: "map_of (rev patch) k = None \<longleftrightarrow> map_of patch k = None"
  by (simp add: map_of_eq_None_iff)

lemma findOne_oid_updateOne:
  "findOne (\<lambda>r. oid r = j) (updateOne (\<lambda>r. oid r = i) f c) =
     (if j = i then map_option (\<lambda>r. r\<lparr>content := f (content r)\<rparr>) (findOne (\<lambda>r. oid r = i) c)
      else findOne (\<lambda>r. oid r = j) c)"
  by (induction c) (auto simp: findOne_def)

lemma findOne_oid_deleteOne:
  "j \<noteq> i \<Longrightarrow> findOne (\<lambda>r. oid r = j) (deleteOne (\<lambda>r. oid r = i) c) = findOne (\<lambda>r. oid r = j) c"
  by (induction c) (auto simp: findOne_def)

lemma deleteOne_remove1:
  "findOne p c = Some r \<Longrightarrow> deleteOne p c = remove1 r c"
  by (induction c) (auto simp: findOne_def find_Some_iff)

subsection \<open>The token of a header\<close>

lemma split_acc_eq:
  "split_acc c acc xs =
     (rev acc @ takeWhile (\<lambda>x. x \<noteq> c) xs) #
       (case dropWhile (\<lambda>x. x \<noteq> c) xs of [] \<Rightarrow> [] | y # rest \<Rightarrow> split_acc c [] rest)"
  by (induction xs arbitrary: acc) auto

lemma second_of_split: "nth_opt (split CHR '' '' h) 1 = second_field h"
proof (cases "dropWhile (\<lambda>x. x \<noteq> CHR '' '') h")
  case Nil
  show ?thesis
    by (simp add: Nil split_def nth_opt_def second_field_def after_first_space_def
        split_acc_eq[of _ "[]" h])
next
  case (Cons y rest)
  show ?thesis
    by (simp add: Cons split_def nth_opt_def second_field_def after_first_space_def
        split_acc_eq[of _ "[]" h] split_acc_eq[of _ "[]" rest])
qed

lemma second_of_split_Suc: "nth_opt (split CHR '' '' h) (Suc 0) = second_field h"
  using second_of_split [of h] by simp

subsection \<open>Registration\<close>

lemma post_users_exists:
  "\<exists>r \<in> set (usersCollection s). field_is ''email'' (map_of (body req) ''email'') r \<Longrightarrow>
   post_users s req = (s, Reply 200 (Message ''User already exists''))"
  by (cases "findOne (field_is ''email'' (map_of (body req) ''email'')) (usersCollection s)")
     (auto simp: post_users_def findOne_None)

lemma post_users_new:
  "\<not> (\<exists>r \<in> set (usersCollection s). field_is ''email'' (map_of (body req) ''email'') r) \<Longrightarrow>
   post_users s req =
     (s\<lparr>usersCollection := usersCollection s @ [\<lparr>oid = next_oid s, content = body req\<rparr>],
        next_oid := Suc (next_oid s)\<rparr>,
      Reply 200 (InsertResult (next_oid s)))"
proof -
  assume "\<not> (\<exists>r \<in> set (usersCollection s). field_is ''email'' (map_of (body req) ''email'') r)"
  then have "findOne (field_is ''email'' (map_of (body req) ''email'')) (usersCollection s) = None"
    by (auto simp: findOne_None)
  then show ?thesis
    by (simp add: post_users_def insertOne_def)
qed

lemma users_with_email_post_users:
  "users_with_email s (map_of (body req) ''email'') \<le> 1 \<Longrightarrow>
   users_with_email (fst (post_users s req)) (map_of (body req) ''email'') = 1"
proof (cases "\<exists>r \<in> set (usersCollection s). field_is ''email'' (map_of (body req) ''email'') r")
  case True
  then have "filter (field_is ''email'' (map_of (body req) ''email'')) (usersCollection s) \<noteq> []"
    by (simp add: filter_empty_conv)
  then have "users_with_email s (map_of (body req) ''email'') \<noteq> 0"
    by (simp add: users_with_email_def)
  moreover assume "users_with_email s (map_of (body req) ''email'') \<le> 1"
  ultimately show ?thesis
    using True by (simp add: post_users_exists)
next
  case False
  then have "filter (field_is ''email'' (map_of (body req) ''email'')) (usersCollection s) = []"
    by (simp add: filter_empty_conv)
  then show ?thesis
    using False by (simp add: post_users_new users_with_email_def field_is_def)
qed

lemma field_is_or_null:
  "or_null e = or_null e' \<Longrightarrow> field_is k e = field_is k e'"
  by (rule ext) (simp add: field_is_def)

lemma users_unique_post_users:
  assumes "\<forall>e. users_with_email s e \<le> 1"
  shows "users_with_email (fst (post_users s req)) e \<le> 1"
proof (cases "\<exists>r \<in> set (usersCollection s). field_is ''email'' (map_of (body req) ''email'') r")
  case True
  then show ?thesis
    using assms by (simp add: post_users_exists)
next
  case False
  then have none: "filter (field_is ''email'' (map_of (body req) ''email'')) (usersCollection s) = []"
    by (simp add: filter_empty_conv)
  show ?thesis
  proof (cases "or_null e = or_null (map_of (body req) ''email'')")
    case True
    then have "field_is ''email'' e = field_is ''email'' (map_of (body req) ''email'')"
      by (rule field_is_or_null)
    then show ?thesis
      using False none by (simp add: post_users_new users_with_email_def field_is_def)
  next
    case other: False
    then have "\<not> field_is ''email'' e \<lparr>oid = next_oid s, content = body req\<rparr>"
      by (simp add: field_is_def)
    then show ?thesis
      using False assms by (simp add: post_users_new users_with_email_def)
  qed
qed

text \<open>
  Claim C7. Registration is idempotent on the email. When the users collection holds a
  record with the profile's email, \<^verbatim>\<open>POST /users\<close> changes nothing and answers, with
  status 200, that the user exists. So when the collection holds at most one record with
  an email, registering that email twice in a row leaves exactly one record with it, and
  the second call is the notice. That no email has more than one record is an invariant
  of registration.
\<close>

theorem post_users_idempotent:
  "((\<exists>r \<in> set (usersCollection s). field_is ''email'' (map_of (body req) ''email'') r) \<longrightarrow>
      post_users s req = (s, Reply 200 (Message ''User already exists''))) \<and>
   (map_of (body req') ''email'' = map_of (body req) ''email'' \<and>
    users_with_email s (map_of (body req) ''email'') \<le> 1 \<longrightarrow>
      post_users (fst (post_users s req)) req' =
        (fst (post_users s req), Reply 200 (Message ''User already exists'')) \<and>
      users_with_email (fst (post_users (fst (post_users s req)) req')) (map_of (body req) ''email'') = 1) \<and>
   ((\<forall>e. users_with_email s e \<le> 1) \<longrightarrow> (\<forall>e. users_with_email (fst (post_users s req)) e \<le> 1))"
proof (intro conjI impI allI)
  assume "\<exists>r \<in> set (usersCollection s). field_is ''email'' (map_of (body req) ''email'') r"
  then show "post_users s req = (s, Reply 200 (Message ''User already exists''))"
    by (rule post_users_exists)
next
  assume a: "map_of (body req') ''email'' = map_of (body req) ''email'' \<and>
    users_with_email s (map_of (body req) ''email'') \<le> 1"
  let ?e = "map_of (body req) ''email''"
  let ?s1 = "fst (post_users s req)"
  have one: "users_with_email ?s1 ?e = 1"
    using a by (simp add: users_with_email_post_users)
  then have "filter (field_is ''email'' ?e) (usersCollection ?s1) \<noteq> []"
    by (auto simp: users_with_email_def)
  then have ex: "\<exists>r \<in> set (usersCollection ?s1). field_is ''email'' (map_of (body req') ''email'') r"
    using a by (simp add: filter_empty_conv)
  then show second: "post_users ?s1 req' = (?s1, Reply 200 (Message ''User already exists''))"
    by (rule post_users_exists)
  show "users_with_email (fst (post_users ?s1 req')) ?e = 1"
    using one second by simp
next
  fix e
  assume "\<forall>e. users_with_email s e \<le> 1"
  then show "users_with_email (fst (post_users s req)) e \<le> 1"
    by (rule users_unique_post_users)
qed

theorem post_users_idempotent_witness:
  "users_with_email empty_store (Some (JStr ''a@rent.io'')) \<le> 1 \<and>
   post_users empty_store (blank_request\<lparr>body := [(''email'', JStr ''a@rent.io''), (''name'', JStr ''Ann'')]\<rparr>) =
     (empty_store\<lparr>usersCollection :=
        [\<lparr>oid = 1, content = [(''email'', JStr ''a@rent.io''), (''name'', JStr ''Ann'')]\<rparr>],
        next_oid := 2\<rparr>,
      Reply 200 (InsertResult 1)) \<and>
   post_users
     (empty_store\<lparr>usersCollection :=
        [\<lparr>oid = 1, content = [(''email'', JStr ''a@rent.io''), (''name'', JStr ''Ann'')]\<rparr>],
        next_oid := 2\<rparr>)
     (blank_request\<lparr>body := [(''email'', JStr ''a@rent.io''), (''name'', JStr ''Anna'')]\<rparr>) =
     (empty_store\<lparr>usersCollection :=
        [\<lparr>oid = 1, content = [(''email'', JStr ''a@rent.io''), (''name'', JStr ''Ann'')]\<rparr>],
        next_oid := 2\<rparr>,
      Reply 200 (Message ''User already exists'')) \<and>
   users_with_email
     (empty_store\<lparr>usersCollection :=
        [\<lparr>oid = 1, content = [(''email'', JStr ''a@rent.io''), (''name'', JStr ''Ann'')]\<rparr>],
        next_oid := 2\<rparr>) (Some (JStr ''a@rent.io'')) = 1"
  using post_users_idempotent
    [of empty_store "blank_request\<lparr>body := [(''email'', JStr ''a@rent.io''), (''name'', JStr ''Ann'')]\<rparr>"
        "blank_request\<lparr>body := [(''email'', JStr ''a@rent.io''), (''name'', JStr ''Anna'')]\<rparr>"]
  by (simp add: empty_store_def blank_request_def users_with_email_def post_users_def findOne_def
      insertOne_def field_is_def or_null_def)

subsection \<open>The access guard\<close>

lemma verifyJWT_missing:
  "authorization req = None \<or> authorization req = Some [] \<Longrightarrow>
   verifyJWT jwt_verify req = Inl (Reply 401 (Message ''Unauthorized access''))"
  by (auto simp: verifyJWT_def)

lemma verifyJWT_invalid:
  "authorization req = Some h \<Longrightarrow> h \<noteq> [] \<Longrightarrow> jwt_verify (second_field h) = None \<Longrightarrow>
   verifyJWT jwt_verify req = Inl (Reply 403 (Message ''Forbidden access''))"
  by (simp add: verifyJWT_def second_of_split_Suc)

lemma verifyJWT_valid:
  "authorization req = Some h \<Longrightarrow> h \<noteq> [] \<Longrightarrow> jwt_verify (second_field h) = Some d \<Longrightarrow>
   verifyJWT jwt_verify req = Inr (req\<lparr>decoded := Some d\<rparr>)"
  by (simp add: verifyJWT_def second_of_split_Suc)

text \<open>
  Claim C5, amended. For every guarded route (any handler behind the guard): when the
  \<^verbatim>\<open>Authorization\<close> header is missing or empty the request is answered 401 and the
  store is as before; otherwise the token is the text between the header's first and
  second space (none when the header has no space), and when its verification fails the
  request is answered 403 and the store is as before; when it succeeds the handler runs
  on the request with the decoded claim attached, and the guard does nothing else.
\<close>

theorem guarded_cases:
  "(authorization req = None \<or> authorization req = Some [] \<longrightarrow>
      verifyJWT jwt_verify req = Inl (Reply 401 (Message ''Unauthorized access'')) \<and>
      guarded jwt_verify handler s req = (s, Reply 401 (Message ''Unauthorized access''))) \<and>
   (authorization req = Some h \<and> h \<noteq> [] \<and> jwt_verify (second_field h) = None \<longrightarrow>
      verifyJWT jwt_verify req = Inl (Reply 403 (Message ''Forbidden access'')) \<and>
      guarded jwt_verify handler s req = (s, Reply 403 (Message ''Forbidden access''))) \<and>
   (authorization req = Some h \<and> h \<noteq> [] \<and> jwt_verify (second_field h) = Some d \<longrightarrow>
      verifyJWT jwt_verify req = Inr (req\<lparr>decoded := Some d\<rparr>) \<and>
      guarded jwt_verify handler s req = handler s (req\<lparr>decoded := Some d\<rparr>))"
  by (simp add: guarded_def verifyJWT_missing verifyJWT_invalid verifyJWT_valid)

theorem guarded_cases_witness:
  "guarded demo_verify post_cars empty_store blank_request =
     (empty_store, Reply 401 (Message ''Unauthorized access'')) \<and>
   second_field ''Bearer forged'' = Some ''forged'' \<and>
   demo_verify (Some ''forged'') = None \<and>
   guarded demo_verify post_cars empty_store (blank_request\<lparr>authorization := Some ''Bearer forged''\<rparr>) =
     (empty_store, Reply 403 (Message ''Forbidden access'')) \<and>
   second_field ''Bearer tokenA'' = Some ''tokenA'' \<and>
   verifyJWT demo_verify (blank_request\<lparr>authorization := Some ''Bearer tokenA''\<rparr>) =
     Inr (blank_request\<lparr>authorization := Some ''Bearer tokenA'',
                        decoded := Some [(''email'', JStr ''a@rent.io'')]\<rparr>) \<and>
   guarded demo_verify post_cars empty_store (blank_request\<lparr>authorization := Some ''Bearer tokenA''\<rparr>) =
     (empty_store\<lparr>carsCollection := [\<lparr>oid = 1, content = []\<rparr>], next_oid := 2\<rparr>,
      Reply 200 (InsertResult 1))"
  using guarded_cases [of blank_request demo_verify post_cars empty_store "''Bearer forged''"
      "[(''email'', JStr ''a@rent.io'')]"]
    guarded_cases [of "blank_request\<lparr>authorization := Some ''Bearer forged''\<rparr>" demo_verify post_cars
      empty_store "''Bearer forged''" "[(''email'', JStr ''a@rent.io'')]"]
    guarded_cases [of "blank_request\<lparr>authorization := Some ''Bearer tokenA''\<rparr>" demo_verify post_cars
      empty_store "''Bearer tokenA''" "[(''email'', JStr ''a@rent.io'')]"]
  by (simp add: blank_request_def empty_store_def demo_verify_def second_field_def
      after_first_space_def post_cars_def insertOne_def)

text \<open>
  The claim as stated fails twice. The header \<^verbatim>\<open>Bearer tokenA x\<close> has the text
  \<^verbatim>\<open>tokenA x\<close> after its first space, which the token service rejects, yet the guard
  verifies \<^verbatim>\<open>tokenA\<close> and lets the request pass. And a header that is present and empty
  is answered 401, not 403.
\<close>

theorem guarded_token_counterexample:
  "after_first_space ''Bearer tokenA x'' = Some ''tokenA x'' \<and>
   demo_verify (Some ''tokenA x'') = None \<and>
   verifyJWT demo_verify (blank_request\<lparr>authorization := Some ''Bearer tokenA x''\<rparr>) =
     Inr (blank_request\<lparr>authorization := Some ''Bearer tokenA x'',
                        decoded := Some [(''email'', JStr ''a@rent.io'')]\<rparr>) \<and>
   verifyJWT demo_verify (blank_request\<lparr>authorization := Some []\<rparr>) =
     Inl (Reply 401 (Message ''Unauthorized access''))"
  by (simp add: after_first_space_def demo_verify_def verifyJWT_def blank_request_def split_def
      nth_opt_def)

subsection \<open>Ownership-scoped queries\<close>

lemma field_is_string:
  "field_is k (Some (JStr e)) r \<longleftrightarrow> map_of (content r) k = Some (JStr e)"
  by (auto simp: field_is_def or_null_def split: option.splits)

lemma get_my_listings_scoped:
  "decoded req = Some d \<Longrightarrow> map_of d ''email'' = Some (JStr a) \<Longrightarrow>
   map_of (query req) ''email'' = Some b \<Longrightarrow>
   get_my_listings s req =
     (if a \<noteq> b then (s, Reply 403 (Message ''Forbidden access''))
      else (s, Reply 200
              (Documents (filter (\<lambda>r. map_of (content r) ''providerEmail'' = Some (JStr a))
                            (carsCollection s)))))"
  by (simp add: get_my_listings_def find_toArray_def field_is_string cong: filter_cong)

lemma get_bookings_scoped:
  "decoded req = Some d \<Longrightarrow> map_of d ''email'' = Some (JStr a) \<Longrightarrow>
   map_of (query req) ''email'' = Some b \<Longrightarrow>
   get_bookings s req =
     (if a \<noteq> b then (s, Reply 403 (Message ''Forbidden access''))
      else (s, Reply 200
              (Documents (filter (\<lambda>r. map_of (content r) ''userEmail'' = Some (JStr a))
                            (bookingsCollection s)))))"
  by (simp add: get_bookings_def find_toArray_def field_is_string cong: filter_cong)

text \<open>
  Claim C4. A request to my-listings or my-bookings carries a token that verifies to a claim
  with email \<open>a\<close>, and asks for the email \<open>b\<close>. When \<open>a \<noteq> b\<close> both routes answer 403
  with the message only, no record. When \<open>a = b\<close> my-listings answers with exactly the
  listings whose \<^verbatim>\<open>providerEmail\<close> is that email, and my-bookings with exactly the bookings
  whose \<^verbatim>\<open>userEmail\<close> is that email; the store is unchanged either way.
\<close>

theorem ownership_isolation:
  assumes "authorization req = Some h" and "h \<noteq> []"
    and "jwt_verify (second_field h) = Some d"
    and "map_of d ''email'' = Some (JStr a)"
    and "map_of (query req) ''email'' = Some b"
  shows
    "(a \<noteq> b \<longrightarrow>
        guarded jwt_verify get_my_listings s req = (s, Reply 403 (Message ''Forbidden access'')) \<and>
        guarded jwt_verify get_bookings s req = (s, Reply 403 (Message ''Forbidden access''))) \<and>
     (a = b \<longrightarrow>
        guarded jwt_verify get_my_listings s req =
          (s, Reply 200
                (Documents (filter (\<lambda>r. map_of (content r) ''providerEmail'' = Some (JStr a))
                              (carsCollection s)))) \<and>
        guarded jwt_verify get_bookings s req =
          (s, Reply 200
                (Documents (filter (\<lambda>r. map_of (content r) ''userEmail'' = Some (JStr a))
                              (bookingsCollection s)))))"
proof -
  let ?req = "req\<lparr>decoded := Some d\<rparr>"
  have pass: "verifyJWT jwt_verify req = Inr ?req"
    using assms(1-3) by (rule verifyJWT_valid)
  have l: "guarded jwt_verify get_my_listings s req = get_my_listings s ?req"
    by (simp add: guarded_def pass)
  have b: "guarded jwt_verify get_bookings s req = get_bookings s ?req"
    by (simp add: guarded_def pass)
  have "decoded ?req = Some d" and "map_of (query ?req) ''email'' = Some b"
    using assms(5) by simp_all
  then show ?thesis
    using assms(4) by (simp add: l b get_my_listings_scoped get_bookings_scoped)
qed

theorem ownership_isolation_witness:
  "guarded demo_verify get_my_listings two_owner_store
     (blank_request\<lparr>authorization := Some ''Bearer tokenA'', query := [(''email'', ''b@rent.io'')]\<rparr>) =
     (two_owner_store, Reply 403 (Message ''Forbidden access'')) \<and>
   guarded demo_verify get_bookings two_owner_store
     (blank_request\<lparr>authorization := Some ''Bearer tokenA'', query := [(''email'', ''b@rent.io'')]\<rparr>) =
     (two_owner_store, Reply 403 (Message ''Forbidden access'')) \<and>
   guarded demo_verify get_my_listings two_owner_store
     (blank_request\<lparr>authorization := Some ''Bearer tokenA'', query := [(''email'', ''a@rent.io'')]\<rparr>) =
     (two_owner_store,
      Reply 200 (Documents
        [\<lparr>oid = 1, content = [(''name'', JStr ''Toyota Corolla''), (''providerEmail'', JStr ''a@rent.io'')]\<rparr>])) \<and>
   guarded demo_verify get_bookings two_owner_store
     (blank_request\<lparr>authorization := Some ''Bearer tokenA'', query := [(''email'', ''a@rent.io'')]\<rparr>) =
     (two_owner_store,
      Reply 200 (Documents
        [\<lparr>oid = 4, content = [(''carId'', JStr ''000000000000000000000002''),
                                (''userEmail'', JStr ''a@rent.io''), (''status'', JStr ''Booked'')]\<rparr>]))"
  using ownership_isolation
      [of "blank_request\<lparr>authorization := Some ''Bearer tokenA'', query := [(''email'', ''b@rent.io'')]\<rparr>"
        "''Bearer tokenA''" demo_verify "[(''email'', JStr ''a@rent.io'')]" "''a@rent.io''"
        "''b@rent.io''" two_owner_store]
    ownership_isolation
      [of "blank_request\<lparr>authorization := Some ''Bearer tokenA'', query := [(''email'', ''a@rent.io'')]\<rparr>"
        "''Bearer tokenA''" demo_verify "[(''email'', JStr ''a@rent.io'')]" "''a@rent.io''"
        "''a@rent.io''" two_owner_store]
  by (simp add: blank_request_def two_owner_store_def demo_verify_def second_field_def
      after_first_space_def)

subsection \<open>Update and delete of a listing\<close>

text \<open>
  Claim C8. Behind the guard, with any claim \<open>d\<close> the token verifies to and any
  identifier \<open>i\<close> the path parameter denotes, \<^verbatim>\<open>PUT /cars/:id\<close> merges the fields of
  the patch into the stored listing and \<^verbatim>\<open>DELETE /cars/:id\<close> removes the listing. The
  outcome does not depend on the claim, and nothing compares it with the listing's
  \<^verbatim>\<open>providerEmail\<close>: the listing \<open>r\<close> may belong to anyone.
\<close>

theorem update_delete_unowned:
  assumes "authorization req = Some h" and "h \<noteq> []"
    and "jwt_verify (second_field h) = Some d"
    and "ObjectId (Some (JStr (params_id req))) = Parsed i"
    and "findOne (\<lambda>r. oid r = i) (carsCollection s) = Some r"
  shows
    "guarded jwt_verify (put_cars ObjectId) s req =
       (s\<lparr>carsCollection :=
            updateOne (\<lambda>r. oid r = i) (set_fields (body req)) (carsCollection s)\<rparr>,
        Reply 200 (UpdateResult 1 (if set_fields (body req) (content r) = content r then 0 else 1))) \<and>
     findOne (\<lambda>r. oid r = i) (carsCollection (fst (guarded jwt_verify (put_cars ObjectId) s req))) =
       Some (r\<lparr>content := set_fields (body req) (content r)\<rparr>) \<and>
     (\<forall>k. map_of (set_fields (body req) (content r)) k =
        (case map_of (rev (body req)) k of None \<Rightarrow> map_of (content r) k | Some v \<Rightarrow> Some v)) \<and>
     guarded jwt_verify (delete_cars ObjectId) s req =
       (s\<lparr>carsCollection := remove1 r (carsCollection s)\<rparr>, Reply 200 (DeleteResult 1))"
proof -
  let ?req = "req\<lparr>decoded := Some d\<rparr>"
  have pass: "verifyJWT jwt_verify req = Inr ?req"
    using assms(1-3) by (rule verifyJWT_valid)
  have put: "guarded jwt_verify (put_cars ObjectId) s req =
       (s\<lparr>carsCollection :=
            updateOne (\<lambda>r. oid r = i) (set_fields (body req)) (carsCollection s)\<rparr>,
        Reply 200 (UpdateResult 1 (if set_fields (body req) (content r) = content r then 0 else 1)))"
    using assms(4,5)
    by (simp add: guarded_def pass put_cars_def matchedCount_def modifiedCount_def)
  have found: "findOne (\<lambda>r. oid r = i)
       (carsCollection (fst (guarded jwt_verify (put_cars ObjectId) s req))) =
       Some (r\<lparr>content := set_fields (body req) (content r)\<rparr>)"
    using assms(5) by (simp add: put findOne_oid_updateOne)
  have del: "guarded jwt_verify (delete_cars ObjectId) s req =
       (s\<lparr>carsCollection := remove1 r (carsCollection s)\<rparr>, Reply 200 (DeleteResult 1))"
    using assms(4,5)
    by (simp add: guarded_def pass delete_cars_def matchedCount_def deleteOne_remove1)
  show ?thesis
    using put found del by (simp add: map_of_set_fields)
qed

theorem update_delete_unowned_witness:
  "guarded demo_verify (put_cars hex_ObjectId) two_owner_store
     (blank_request\<lparr>authorization := Some ''Bearer tokenA'',
                    params_id := ''000000000000000000000002'',
                    body := [(''name'', JStr ''Taken over''), (''providerEmail'', JStr ''a@rent.io'')]\<rparr>) =
     (two_owner_store\<lparr>carsCollection :=
        [\<lparr>oid = 1, content = [(''name'', JStr ''Toyota Corolla''), (''providerEmail'', JStr ''a@rent.io'')]\<rparr>,
         \<lparr>oid = 2, content = [(''name'', JStr ''Taken over''), (''providerEmail'', JStr ''a@rent.io'')]\<rparr>]\<rparr>,
      Reply 200 (UpdateResult 1 1)) \<and>
   guarded demo_verify (delete_cars hex_ObjectId) two_owner_store
     (blank_request\<lparr>authorization := Some ''Bearer tokenA'',
                    params_id := ''000000000000000000000002'',
                    body := [(''name'', JStr ''Taken over''), (''providerEmail'', JStr ''a@rent.io'')]\<rparr>) =
     (two_owner_store\<lparr>carsCollection :=
        [\<lparr>oid = 1, content = [(''name'', JStr ''Toyota Corolla''), (''providerEmail'', JStr ''a@rent.io'')]\<rparr>]\<rparr>,
      Reply 200 (DeleteResult 1))"
  using update_delete_unowned
      [of "blank_request\<lparr>authorization := Some ''Bearer tokenA'',
                    params_id := ''000000000000000000000002'',
                    body := [(''name'', JStr ''Taken over''), (''providerEmail'', JStr ''a@rent.io'')]\<rparr>"
        "''Bearer tokenA''" demo_verify "[(''email'', JStr ''a@rent.io'')]" hex_ObjectId 2
        two_owner_store
        "\<lparr>oid = 2, content = [(''name'', JStr ''Honda Civic''), (''providerEmail'', JStr ''b@rent.io'')]\<rparr>"]
  by (simp add: blank_request_def two_owner_store_def demo_verify_def second_field_def
      after_first_space_def hex_ObjectId_def hex_digit_def findOne_def set_fields_def)

subsection \<open>Booking, one request at a time\<close>

lemma booked_filter_iff: "booked_filter booking r \<longleftrightarrow> booked_for (map_of booking ''carId'') r"
  by (simp add: booked_filter_def booked_for_def field_is_def field_is_string)
     (auto simp: or_null_def split: option.splits)

lemma findOne_booked_None:
  "findOne (booked_filter booking) c = None \<longleftrightarrow>
   \<not> (\<exists>r \<in> set c. booked_for (map_of booking ''carId'') r)"
  by (simp add: findOne_None booked_filter_iff)

lemma post_bookings_conflict:
  "\<exists>r \<in> set (bookingsCollection s). booked_for (map_of (body req) ''carId'') r \<Longrightarrow>
   post_bookings ObjectId s req = (s, Reply 400 (Message ''This car is already booked''))"
  by (cases "findOne (booked_filter (body req)) (bookingsCollection s)")
     (auto simp: post_bookings_def findOne_booked_None)

lemma post_bookings_free:
  assumes "\<not> (\<exists>r \<in> set (bookingsCollection s). booked_for (map_of (body req) ''carId'') r)"
  shows "post_bookings ObjectId s req =
     (case ObjectId (map_of (body req) ''carId'') of
        Throws \<Rightarrow>
          (s\<lparr>bookingsCollection := bookingsCollection s @ [\<lparr>oid = next_oid s, content = body req\<rparr>],
             next_oid := Suc (next_oid s)\<rparr>,
           Unhandled)
      | Generated \<Rightarrow>
          (s\<lparr>bookingsCollection := bookingsCollection s @ [\<lparr>oid = next_oid s, content = body req\<rparr>],
             next_oid := Suc (next_oid s)\<rparr>,
           Reply 200 (InsertResult (next_oid s)))
      | Parsed i \<Rightarrow>
          (s\<lparr>bookingsCollection := bookingsCollection s @ [\<lparr>oid = next_oid s, content = body req\<rparr>],
             carsCollection :=
               updateOne (\<lambda>r. oid r = i) (set_fields [(''status'', JStr ''Booked'')]) (carsCollection s),
             next_oid := Suc (next_oid s)\<rparr>,
           Reply 200 (InsertResult (next_oid s))))"
proof -
  have "findOne (booked_filter (body req)) (bookingsCollection s) = None"
    using assms by (simp add: findOne_booked_None)
  then show ?thesis
    by (simp add: post_bookings_def insertOne_def Let_def split: oid_result.splits)
qed





lemma post_bookings_success:
  assumes "post_bookings ObjectId s req = (s1, Reply 200 (InsertResult n))"
  shows "\<not> (\<exists>r \<in> set (bookingsCollection s). booked_for (map_of (body req) ''carId'') r) \<and>
         ObjectId (map_of (body req) ''carId'') \<noteq> Throws \<and> n = next_oid s \<and>
         next_oid s1 = Suc (next_oid s) \<and>
         bookingsCollection s1 = bookingsCollection s @ [\<lparr>oid = next_oid s, content = body req\<rparr>]"
proof (cases "\<exists>r \<in> set (bookingsCollection s). booked_for (map_of (body req) ''carId'') r")
  case True
  then show ?thesis
    using assms by (simp add: post_bookings_conflict)
next
  case False
  show ?thesis
    using assms False post_bookings_free [OF False, of ObjectId]
    by (auto split: oid_result.splits)
qed

lemma post_bookings_reply_cars:
  "snd (post_bookings ObjectId (s\<lparr>carsCollection := cars\<rparr>) req) = snd (post_bookings ObjectId s req)"
  by (simp add: post_bookings_def Let_def split: option.splits oid_result.splits)

text \<open>
  Claim C9. The answer of \<^verbatim>\<open>POST /bookings\<close> is the same whatever the listings
  collection holds: the conflict check reads the bookings collection only. A booking that
  succeeds is stored as the payload the client sent. So when the payload's status is not
  the string \<^verbatim>\<open>Booked\<close>, the next request for the same \<^verbatim>\<open>carId\<close> succeeds as well.
\<close>

theorem booking_status_from_payload:
  "snd (post_bookings ObjectId (s\<lparr>carsCollection := cars\<rparr>) req) = snd (post_bookings ObjectId s req) \<and>
   (post_bookings ObjectId s req = (t, Reply 200 (InsertResult n)) \<longrightarrow>
      bookingsCollection t = bookingsCollection s @ [\<lparr>oid = n, content = body req\<rparr>]) \<and>
   (post_bookings ObjectId s req = (t, Reply 200 (InsertResult n)) \<and>
    map_of (body req) ''status'' \<noteq> Some (JStr ''Booked'') \<and>
    map_of (body req') ''carId'' = map_of (body req) ''carId'' \<longrightarrow>
      snd (post_bookings ObjectId t req') = Reply 200 (InsertResult (Suc n)))"
proof (intro conjI impI)
  show "snd (post_bookings ObjectId (s\<lparr>carsCollection := cars\<rparr>) req) =
        snd (post_bookings ObjectId s req)"
    by (rule post_bookings_reply_cars)
next
  assume "post_bookings ObjectId s req = (t, Reply 200 (InsertResult n))"
  from post_bookings_success [OF this]
  show "bookingsCollection t = bookingsCollection s @ [\<lparr>oid = n, content = body req\<rparr>]"
    by simp
next
  assume a: "post_bookings ObjectId s req = (t, Reply 200 (InsertResult n)) \<and>
    map_of (body req) ''status'' \<noteq> Some (JStr ''Booked'') \<and>
    map_of (body req') ''carId'' = map_of (body req) ''carId''"
  then have first: "post_bookings ObjectId s req = (t, Reply 200 (InsertResult n))"
    by simp
  note f = post_bookings_success [OF first]
  have "\<not> booked_for (map_of (body req') ''carId'') \<lparr>oid = next_oid s, content = body req\<rparr>"
    using a by (simp add: booked_for_def)
  then have free: "\<not> (\<exists>r \<in> set (bookingsCollection t). booked_for (map_of (body req') ''carId'') r)"
    using f a by simp
  show "snd (post_bookings ObjectId t req') = Reply 200 (InsertResult (Suc n))"
    using f a by (simp add: post_bookings_free [OF free] split: oid_result.splits)
qed

theorem booking_status_from_payload_witness:
  "post_bookings hex_ObjectId (two_owner_store\<lparr>bookingsCollection := []\<rparr>)
     (blank_request\<lparr>body := [(''carId'', JStr ''000000000000000000000001''),
                             (''userEmail'', JStr ''b@rent.io''), (''status'', JStr ''Pending'')]\<rparr>) =
     (two_owner_store
        \<lparr>carsCollection :=
           [\<lparr>oid = 1, content = [(''name'', JStr ''Toyota Corolla''), (''providerEmail'', JStr ''a@rent.io''),
                                   (''status'', JStr ''Booked'')]\<rparr>,
            \<lparr>oid = 2, content = [(''name'', JStr ''Honda Civic''), (''providerEmail'', JStr ''b@rent.io'')]\<rparr>],
         bookingsCollection :=
           [\<lparr>oid = 5, content = [(''carId'', JStr ''000000000000000000000001''),
                                   (''userEmail'', JStr ''b@rent.io''), (''status'', JStr ''Pending'')]\<rparr>],
         next_oid := 6\<rparr>,
      Reply 200 (InsertResult 5)) \<and>
   snd (post_bookings hex_ObjectId
     (two_owner_store
        \<lparr>carsCollection :=
           [\<lparr>oid = 1, content = [(''name'', JStr ''Toyota Corolla''), (''providerEmail'', JStr ''a@rent.io''),
                                   (''status'', JStr ''Booked'')]\<rparr>,
            \<lparr>oid = 2, content = [(''name'', JStr ''Honda Civic''), (''providerEmail'', JStr ''b@rent.io'')]\<rparr>],
         bookingsCollection :=
           [\<lparr>oid = 5, content = [(''carId'', JStr ''000000000000000000000001''),
                                   (''userEmail'', JStr ''b@rent.io''), (''status'', JStr ''Pending'')]\<rparr>],
         next_oid := 6\<rparr>)
     (blank_request\<lparr>body := [(''carId'', JStr ''000000000000000000000001''),
                             (''userEmail'', JStr ''a@rent.io''), (''status'', JStr ''Booked'')]\<rparr>)) =
     Reply 200 (InsertResult 6)"
  using booking_status_from_payload
      [where s = "two_owner_store\<lparr>bookingsCollection := []\<rparr>" and ObjectId = hex_ObjectId and
        cars = "[]" and n = 5 and
        req = "blank_request\<lparr>body := [(''carId'', JStr ''000000000000000000000001''),
                             (''userEmail'', JStr ''b@rent.io''), (''status'', JStr ''Pending'')]\<rparr>" and
        req' = "blank_request\<lparr>body := [(''carId'', JStr ''000000000000000000000001''),
                             (''userEmail'', JStr ''a@rent.io''), (''status'', JStr ''Booked'')]\<rparr>" and
        t = "two_owner_store
        \<lparr>carsCollection :=
           [\<lparr>oid = 1, content = [(''name'', JStr ''Toyota Corolla''), (''providerEmail'', JStr ''a@rent.io''),
                                   (''status'', JStr ''Booked'')]\<rparr>,
            \<lparr>oid = 2, content = [(''name'', JStr ''Honda Civic''), (''providerEmail'', JStr ''b@rent.io'')]\<rparr>],
         bookingsCollection :=
           [\<lparr>oid = 5, content = [(''carId'', JStr ''000000000000000000000001''),
                                   (''userEmail'', JStr ''b@rent.io''), (''status'', JStr ''Pending'')]\<rparr>],
         next_oid := 6\<rparr>"]
  by (simp add: blank_request_def two_owner_store_def hex_ObjectId_def hex_digit_def
      post_bookings_def findOne_def booked_filter_def field_is_def or_null_def insertOne_def
      set_fields_def)

subsection \<open>Whose booking it is\<close>

lemma get_bookings_mine:
  "decoded q = Some c \<Longrightarrow> map_of c ''email'' = Some (JStr e) \<Longrightarrow>
   map_of (query q) ''email'' = Some e \<Longrightarrow>
   get_bookings s q =
     (s, Reply 200
           (Documents (filter (\<lambda>r. map_of (content r) ''userEmail'' = Some (JStr e))
                         (bookingsCollection s))))"
  by (simp add: get_bookings_scoped)

text \<open>
  Claim C10. \<^verbatim>\<open>POST /bookings\<close> does not compare the payload's \<^verbatim>\<open>userEmail\<close> with
  the email of the verified claim. A request whose token verifies to a claim with email
  \<open>a\<close> and whose payload names another email \<open>b\<close> is stored (when no booking
  conflicts) with that \<^verbatim>\<open>userEmail\<close>; afterwards the record is among the bookings that
  my-bookings returns to \<open>b\<close>, and not among those it returns to \<open>a\<close>.
\<close>

theorem booking_email_from_payload:
  assumes "authorization req = Some h" and "h \<noteq> []"
    and "jwt_verify (second_field h) = Some d"
    and "map_of d ''email'' = Some (JStr a)"
    and "map_of (body req) ''userEmail'' = Some (JStr b)"
    and "a \<noteq> b"
    and "\<not> (\<exists>r \<in> set (bookingsCollection s). booked_for (map_of (body req) ''carId'') r)"
    and "s' = fst (guarded jwt_verify (post_bookings ObjectId) s req)"
    and "decoded qa = Some ca" and "map_of ca ''email'' = Some (JStr a)"
    and "map_of (query qa) ''email'' = Some a"
    and "decoded qb = Some cb" and "map_of cb ''email'' = Some (JStr b)"
    and "map_of (query qb) ''email'' = Some b"
  shows
    "bookingsCollection s' = bookingsCollection s @ [\<lparr>oid = next_oid s, content = body req\<rparr>] \<and>
     (\<exists>docs. get_bookings s' qb = (s', Reply 200 (Documents docs)) \<and>
        \<lparr>oid = next_oid s, content = body req\<rparr> \<in> set docs) \<and>
     (\<exists>docs. get_bookings s' qa = (s', Reply 200 (Documents docs)) \<and>
        \<lparr>oid = next_oid s, content = body req\<rparr> \<notin> set docs)"
proof -
  let ?req = "req\<lparr>decoded := Some d\<rparr>"
  have pass: "verifyJWT jwt_verify req = Inr ?req"
    using assms(1-3) by (rule verifyJWT_valid)
  have free: "\<not> (\<exists>r \<in> set (bookingsCollection s). booked_for (map_of (body ?req) ''carId'') r)"
    using assms(7) by simp
  have stored: "bookingsCollection s' =
      bookingsCollection s @ [\<lparr>oid = next_oid s, content = body req\<rparr>]"
    using post_bookings_free [OF free, of ObjectId]
    by (simp add: assms(8) guarded_def pass split: oid_result.splits)
  have mine: "get_bookings s' qb =
      (s', Reply 200 (Documents (filter (\<lambda>r. map_of (content r) ''userEmail'' = Some (JStr b))
                                   (bookingsCollection s'))))"
    using assms(12-14) by (rule get_bookings_mine)
  have theirs: "get_bookings s' qa =
      (s', Reply 200 (Documents (filter (\<lambda>r. map_of (content r) ''userEmail'' = Some (JStr a))
                                   (bookingsCollection s'))))"
    using assms(9-11) by (rule get_bookings_mine)
  show ?thesis
    using assms(5,6) by (simp add: stored mine theirs)
qed

theorem booking_email_from_payload_witness:
  "bookingsCollection
     (fst (guarded demo_verify (post_bookings hex_ObjectId) empty_store
        (blank_request\<lparr>authorization := Some ''Bearer tokenA'',
                       body := [(''carId'', JStr ''000000000000000000000001''),
                                (''userEmail'', JStr ''b@rent.io''), (''status'', JStr ''Booked'')]\<rparr>))) =
     [\<lparr>oid = 1, content = [(''carId'', JStr ''000000000000000000000001''),
                             (''userEmail'', JStr ''b@rent.io''), (''status'', JStr ''Booked'')]\<rparr>] \<and>
   snd (guarded demo_verify get_bookings
     (fst (guarded demo_verify (post_bookings hex_ObjectId) empty_store
        (blank_request\<lparr>authorization := Some ''Bearer tokenA'',
                       body := [(''carId'', JStr ''000000000000000000000001''),
                                (''userEmail'', JStr ''b@rent.io''), (''status'', JStr ''Booked'')]\<rparr>)))
     (blank_request\<lparr>authorization := Some ''Bearer tokenB'', query := [(''email'', ''b@rent.io'')]\<rparr>)) =
     Reply 200 (Documents
       [\<lparr>oid = 1, content = [(''carId'', JStr ''000000000000000000000001''),
                               (''userEmail'', JStr ''b@rent.io''), (''status'', JStr ''Booked'')]\<rparr>]) \<and>
   snd (guarded demo_verify get_bookings
     (fst (guarded demo_verify (post_bookings hex_ObjectId) empty_store
        (blank_request\<lparr>authorization := Some ''Bearer tokenA'',
                       body := [(''carId'', JStr ''000000000000000000000001''),
                                (''userEmail'', JStr ''b@rent.io''), (''status'', JStr ''Booked'')]\<rparr>)))
     (blank_request\<lparr>authorization := Some ''Bearer tokenA'', query := [(''email'', ''a@rent.io'')]\<rparr>)) =
     Reply 200 (Documents [])"
  using booking_email_from_payload
      [where jwt_verify = demo_verify and ObjectId = hex_ObjectId and s = empty_store and
        h = "''Bearer tokenA''" and d = "[(''email'', JStr ''a@rent.io'')]" and
        a = "''a@rent.io''" and b = "''b@rent.io''" and
        req = "blank_request\<lparr>authorization := Some ''Bearer tokenA'',
                       body := [(''carId'', JStr ''000000000000000000000001''),
                                (''userEmail'', JStr ''b@rent.io''), (''status'', JStr ''Booked'')]\<rparr>" and
        s' = "fst (guarded demo_verify (post_bookings hex_ObjectId) empty_store
        (blank_request\<lparr>authorization := Some ''Bearer tokenA'',
                       body := [(''carId'', JStr ''000000000000000000000001''),
                                (''userEmail'', JStr ''b@rent.io''), (''status'', JStr ''Booked'')]\<rparr>))" and
        qa = "blank_request\<lparr>query := [(''email'', ''a@rent.io'')],
                            decoded := Some [(''email'', JStr ''a@rent.io'')]\<rparr>" and
        ca = "[(''email'', JStr ''a@rent.io'')]" and
        qb = "blank_request\<lparr>query := [(''email'', ''b@rent.io'')],
                            decoded := Some [(''email'', JStr ''b@rent.io'')]\<rparr>" and
        cb = "[(''email'', JStr ''b@rent.io'')]"]
  by (simp add: blank_request_def empty_store_def demo_verify_def hex_ObjectId_def hex_digit_def
      guarded_def verifyJWT_def split_def nth_opt_def second_field_def after_first_space_def
      post_bookings_def findOne_def booked_filter_def field_is_def or_null_def insertOne_def
      get_bookings_def find_toArray_def booked_for_def)

subsection \<open>Search\<close>

lemma rx_compile_literal: "set x \<inter> set rx_special = {} \<Longrightarrow> rx_compile x = Some (map Lit x)"
  by (induction x) (auto simp: rx_special_def)

lemma rx_at_literal: "rx_at (map Lit x) n \<longleftrightarrow> prefix (map to_lower x) (map to_lower n)"
proof (induction x arbitrary: n)
  case Nil
  show ?case by simp
next
  case (Cons c x)
  show ?case by (cases n) (simp_all add: Cons)
qed

lemma rx_search_literal: "rx_search (map Lit x) n \<longleftrightarrow> sublist (map to_lower x) (map to_lower n)"
proof (induction n)
  case Nil
  show ?case by (cases x) simp_all
next
  case (Cons d n)
  show ?case by (simp add: Cons rx_at_literal sublist_Cons_right)
qed

lemma name_regex_literal: "name_regex (map Lit x) r \<longleftrightarrow> name_contains x r"
  by (simp add: name_regex_def name_contains_def rx_search_literal
      split: option.splits jval.splits)

lemma name_regex_empty: "name_regex [] r \<longleftrightarrow> (\<exists>n. map_of (content r) ''name'' = Some (JStr n))"
proof -
  have "rx_search [] n" for n
    by (cases n) simp_all
  then show ?thesis
    by (simp add: name_regex_def split: option.splits jval.splits)
qed

text \<open>
  Claim C6, amended. The query text is a regular expression. For every query \<open>x\<close> without
  a metacharacter of the expression language, search returns exactly the listings whose
  name is a string that contains \<open>x\<close>, letter case aside. With the empty or absent
  query it returns the listings that have a string as their name.
\<close>

theorem search_literal:
  "(set x \<inter> set rx_special = {} \<and> map_of (query req) ''q'' = Some x \<longrightarrow>
      get_search s req =
        Some (s, Reply 200 (Documents (filter (name_contains x) (carsCollection s))))) \<and>
   (map_of (query req) ''q'' = None \<or> map_of (query req) ''q'' = Some [] \<longrightarrow>
      get_search s req =
        Some (s, Reply 200
                   (Documents (filter (\<lambda>r. \<exists>n. map_of (content r) ''name'' = Some (JStr n))
                                 (carsCollection s)))))"
proof (intro conjI impI)
  assume a: "set x \<inter> set rx_special = {} \<and> map_of (query req) ''q'' = Some x"
  then have "rx_compile x = Some (map Lit x)"
    by (simp add: rx_compile_literal)
  then show "get_search s req =
      Some (s, Reply 200 (Documents (filter (name_contains x) (carsCollection s))))"
    using a by (auto simp: get_search_def find_toArray_def name_regex_literal cong: filter_cong)
next
  assume "map_of (query req) ''q'' = None \<or> map_of (query req) ''q'' = Some []"
  then show "get_search s req =
      Some (s, Reply 200
                 (Documents (filter (\<lambda>r. \<exists>n. map_of (content r) ''name'' = Some (JStr n))
                               (carsCollection s))))"
    by (auto simp: get_search_def find_toArray_def name_regex_empty cong: filter_cong)
qed

theorem search_literal_witness:
  "set ''toy'' \<inter> set rx_special = {} \<and>
   get_search two_owner_store (blank_request\<lparr>query := [(''q'', ''toy'')]\<rparr>) =
     Some (two_owner_store,
           Reply 200 (Documents
             [\<lparr>oid = 1, content = [(''name'', JStr ''Toyota Corolla''), (''providerEmail'', JStr ''a@rent.io'')]\<rparr>])) \<and>
   get_search two_owner_store blank_request =
     Some (two_owner_store, Reply 200 (Documents (carsCollection two_owner_store)))"
  using search_literal [where x = "''toy''" and s = two_owner_store and
      req = "blank_request\<lparr>query := [(''q'', ''toy'')]\<rparr>"]
    search_literal [where x = "''toy''" and s = two_owner_store and req = blank_request]
  by (simp add: blank_request_def two_owner_store_def rx_special_def name_contains_def
      to_lower_def sublist_code)

text \<open>
  The claim as stated fails twice. The query \<^verbatim>\<open>t.y\<close> returns the listing named
  \<^verbatim>\<open>Toyota Corolla\<close>, whose name does not contain the text \<^verbatim>\<open>t.y\<close>: the dot stands
  for any character. And the empty query does not return a listing that has no name.
\<close>

theorem search_counterexample:
  "get_search two_owner_store (blank_request\<lparr>query := [(''q'', ''t.y'')]\<rparr>) =
     Some (two_owner_store,
           Reply 200 (Documents
             [\<lparr>oid = 1, content = [(''name'', JStr ''Toyota Corolla''), (''providerEmail'', JStr ''a@rent.io'')]\<rparr>])) \<and>
   \<not> sublist (map to_lower ''t.y'') (map to_lower ''Toyota Corolla'') \<and>
   get_search (empty_store\<lparr>carsCollection := [\<lparr>oid = 1, content = [(''providerEmail'', JStr ''a@rent.io'')]\<rparr>]\<rparr>)
     blank_request =
     Some (empty_store\<lparr>carsCollection := [\<lparr>oid = 1, content = [(''providerEmail'', JStr ''a@rent.io'')]\<rparr>]\<rparr>,
           Reply 200 (Documents []))"
  by (simp add: blank_request_def two_owner_store_def empty_store_def get_search_def
      rx_special_def find_toArray_def name_regex_def to_lower_def sublist_code)

subsection \<open>What writes a listing's status\<close>

lemma listing_status_post_bookings:
  "listing_status (fst (post_bookings ObjectId s req)) j =
     (if \<not> (\<exists>r \<in> set (bookingsCollection s). booked_for (map_of (body req) ''carId'') r) \<and>
         ObjectId (map_of (body req) ''carId'') = Parsed j
      then map_option (\<lambda>st. Some (JStr ''Booked'')) (listing_status s j)
      else listing_status s j)"
proof (cases "\<exists>r \<in> set (bookingsCollection s). booked_for (map_of (body req) ''carId'') r")
  case True
  then show ?thesis by (simp add: post_bookings_conflict)
next
  case False
  show ?thesis
    using False
    by (simp add: post_bookings_free [OF False] listing_status_def findOne_oid_updateOne
        option.map_comp comp_def map_of_set_fields split: oid_result.splits)
qed

lemma listing_status_put_cars:
  "listing_status (fst (put_cars ObjectId s req)) j =
     (if ObjectId (Some (JStr (params_id req))) = Parsed j
      then map_option
             (\<lambda>st. case map_of (rev (body req)) ''status'' of None \<Rightarrow> st | Some v \<Rightarrow> Some v)
             (listing_status s j)
      else listing_status s j)"
  by (simp add: put_cars_def Let_def listing_status_def findOne_oid_updateOne option.map_comp
      comp_def map_of_set_fields split: oid_result.splits)

lemma listing_status_delete_cars:
  "ObjectId (Some (JStr (params_id req))) \<noteq> Parsed j \<Longrightarrow>
   listing_status (fst (delete_cars ObjectId s req)) j = listing_status s j"
  by (auto simp: delete_cars_def Let_def listing_status_def findOne_oid_deleteOne
      split: oid_result.splits)

lemma listing_status_post_cars:
  "listing_status s j \<noteq> None \<Longrightarrow> listing_status (fst (post_cars s req)) j = listing_status s j"
  by (auto simp: post_cars_def Let_def listing_status_def insertOne_def findOne_append
      split: option.splits)

text \<open>
  Claim C3, amended. The booking engine writes the status \<^verbatim>\<open>Booked\<close> into the listing
  its candidate references, whatever that listing's status was, and changes the status of
  no other listing. The listing update writes every field of its patch into the listing it
  names: it sets that listing's status to the value of the patch's status field when the
  patch has one, and changes no status when the patch has none. Deleting a listing and
  adding a listing leave the status of every other stored listing as it was, and
  registration, the list of users, my-listings, my-bookings and search change no listing.
\<close>

theorem listing_status_writers:
  "listing_status (fst (post_bookings ObjectId s req)) j =
     (if \<not> (\<exists>r \<in> set (bookingsCollection s). booked_for (map_of (body req) ''carId'') r) \<and>
         ObjectId (map_of (body req) ''carId'') = Parsed j
      then map_option (\<lambda>st. Some (JStr ''Booked'')) (listing_status s j)
      else listing_status s j) \<and>
   listing_status (fst (put_cars ObjectId s req)) j =
     (if ObjectId (Some (JStr (params_id req))) = Parsed j
      then map_option
             (\<lambda>st. case map_of (rev (body req)) ''status'' of None \<Rightarrow> st | Some v \<Rightarrow> Some v)
             (listing_status s j)
      else listing_status s j) \<and>
   (map_of (body req) ''status'' = None \<longrightarrow>
      listing_status (fst (put_cars ObjectId s req)) j = listing_status s j) \<and>
   (ObjectId (Some (JStr (params_id req))) \<noteq> Parsed j \<longrightarrow>
      listing_status (fst (delete_cars ObjectId s req)) j = listing_status s j) \<and>
   (listing_status s j \<noteq> None \<longrightarrow>
      listing_status (fst (post_cars s req)) j = listing_status s j) \<and>
   carsCollection (fst (post_users s req)) = carsCollection s \<and>
   fst (get_users s req) = s \<and>
   fst (get_my_listings s req) = s \<and>
   fst (get_bookings s req) = s \<and>
   (\<forall>t. get_search s req = Some t \<longrightarrow> fst t = s)"
proof (intro conjI impI allI)
  show "listing_status (fst (post_bookings ObjectId s req)) j =
     (if \<not> (\<exists>r \<in> set (bookingsCollection s). booked_for (map_of (body req) ''carId'') r) \<and>
         ObjectId (map_of (body req) ''carId'') = Parsed j
      then map_option (\<lambda>st. Some (JStr ''Booked'')) (listing_status s j)
      else listing_status s j)"
    by (rule listing_status_post_bookings)
  show put: "listing_status (fst (put_cars ObjectId s req)) j =
     (if ObjectId (Some (JStr (params_id req))) = Parsed j
      then map_option
             (\<lambda>st. case map_of (rev (body req)) ''status'' of None \<Rightarrow> st | Some v \<Rightarrow> Some v)
             (listing_status s j)
      else listing_status s j)"
    by (rule listing_status_put_cars)
  show "listing_status (fst (put_cars ObjectId s req)) j = listing_status s j"
    if "map_of (body req) ''status'' = None"
  proof -
    have "map_of (rev (body req)) ''status'' = None"
      using that by (simp add: map_of_rev_None)
    then show ?thesis
      by (simp add: put option.map_ident)
  qed
  show "listing_status (fst (delete_cars ObjectId s req)) j = listing_status s j"
    if "ObjectId (Some (JStr (params_id req))) \<noteq> Parsed j"
    using that by (rule listing_status_delete_cars)
  show "listing_status (fst (post_cars s req)) j = listing_status s j"
    if "listing_status s j \<noteq> None"
    using that by (rule listing_status_post_cars)
  show "carsCollection (fst (post_users s req)) = carsCollection s"
    by (simp add: post_users_def Let_def split: option.splits)
  show "fst (get_users s req) = s"
    by (simp add: get_users_def)
  show "fst (get_my_listings s req) = s"
    by (simp add: get_my_listings_def Let_def split: option.splits)
  show "fst (get_bookings s req) = s"
    by (simp add: get_bookings_def Let_def split: option.splits)
  show "fst t = s" if "get_search s req = Some t" for t
    using that by (auto simp: get_search_def Let_def split: option.splits)
qed

theorem listing_status_writers_witness:
  "listing_status (two_owner_store\<lparr>bookingsCollection := []\<rparr>) 1 = Some None \<and>
   listing_status
     (fst (post_bookings hex_ObjectId (two_owner_store\<lparr>bookingsCollection := []\<rparr>)
        (blank_request\<lparr>body := [(''carId'', JStr ''000000000000000000000001''),
                                (''status'', JStr ''Booked'')]\<rparr>))) 1 =
     Some (Some (JStr ''Booked'')) \<and>
   listing_status
     (fst (put_cars hex_ObjectId two_owner_store
        (blank_request\<lparr>params_id := ''000000000000000000000001'',
                       body := [(''name'', JStr ''Toyota Yaris'')]\<rparr>))) 1 = Some None \<and>
   listing_status
     (fst (delete_cars hex_ObjectId two_owner_store
        (blank_request\<lparr>params_id := ''000000000000000000000002''\<rparr>))) 1 = Some None \<and>
   listing_status (fst (post_cars two_owner_store blank_request)) 1 = Some None"
  using listing_status_writers
      [where ObjectId = hex_ObjectId and s = "two_owner_store\<lparr>bookingsCollection := []\<rparr>" and j = 1 and
        req = "blank_request\<lparr>body := [(''carId'', JStr ''000000000000000000000001''),
                                (''status'', JStr ''Booked'')]\<rparr>"]
    listing_status_writers
      [where ObjectId = hex_ObjectId and s = two_owner_store and j = 1 and
        req = "blank_request\<lparr>params_id := ''000000000000000000000001'',
                       body := [(''name'', JStr ''Toyota Yaris'')]\<rparr>"]
    listing_status_writers
      [where ObjectId = hex_ObjectId and s = two_owner_store and j = 1 and
        req = "blank_request\<lparr>params_id := ''000000000000000000000002''\<rparr>"]
    listing_status_writers
      [where ObjectId = hex_ObjectId and s = two_owner_store and j = 1 and req = blank_request]
  by (simp add: blank_request_def two_owner_store_def hex_ObjectId_def hex_digit_def
      listing_status_def findOne_def booked_for_def Let_def)

text \<open>
  The claim as stated fails: a listing update whose patch carries a status field takes a
  booked listing back to \<^verbatim>\<open>Available\<close>, with the token of a user who does not own it.
\<close>

theorem listing_status_update_counterexample:
  "listing_status booked_store 1 = Some (Some (JStr ''Booked'')) \<and>
   listing_status
     (fst (guarded demo_verify (put_cars hex_ObjectId) booked_store
        (blank_request\<lparr>authorization := Some ''Bearer tokenB'',
                       params_id := ''000000000000000000000001'',
                       body := [(''status'', JStr ''Available'')]\<rparr>))) 1 =
     Some (Some (JStr ''Available''))"
  by (simp add: booked_store_def blank_request_def demo_verify_def hex_ObjectId_def hex_digit_def
      listing_status_def findOne_def guarded_def verifyJWT_def split_def nth_opt_def put_cars_def
      Let_def set_fields_def)

subsection \<open>Concurrent booking requests\<close>

text \<open>
  A request that is served alone, its three store calls one after the other, does what
  \<^verbatim>\<open>POST /bookings\<close> does.
\<close>

lemma run_schedule_alone:
  "run_schedule ObjectId [0, 0, 0] (s, [(body req, AwaitFindOne)]) =
     (fst (post_bookings ObjectId s req), [(body req, Finished (snd (post_bookings ObjectId s req)))])"
proof (cases "findOne (booked_filter (body req)) (bookingsCollection s)")
  case None
  then show ?thesis
    by (cases "ObjectId (map_of (body req) ''carId'')")
       (simp_all add: book_step_def post_bookings_def Let_def insertOne_def)
next
  case (Some existingBooking)
  then show ?thesis
    by (simp add: book_step_def post_bookings_def)
qed

lemma serve_bookings_taken:
  assumes "\<exists>r \<in> set (bookingsCollection s). booked_for c r"
    and "\<forall>req \<in> set reqs. map_of (body req) ''carId'' = c"
  shows "serve_bookings ObjectId s reqs =
     (s, replicate (length reqs) (Reply 400 (Message ''This car is already booked'')))"
  using assms(2)
proof (induction reqs)
  case Nil
  show ?case by simp
next
  case (Cons req reqs)
  then have "post_bookings ObjectId s req = (s, Reply 400 (Message ''This car is already booked''))"
    using assms(1) by (simp add: post_bookings_conflict)
  then show ?case
    using Cons by simp
qed

text \<open>
  Served one after the other, requests for one listing exclude each other: when every
  payload has the status Booked and the same \<^verbatim>\<open>carId\<close>, which the identifier
  constructor accepts, and no Booked record for it is stored, the first request is
  answered with its insertion result and every later one with 400, and the bookings
  collection ends with exactly one Booked record for the listing.
\<close>

theorem sequential_bookings_exclusive:
  assumes "\<forall>req \<in> set (rq # reqs).
             map_of (body req) ''carId'' = c \<and> map_of (body req) ''status'' = Some (JStr ''Booked'')"
    and "ObjectId c \<noteq> Throws"
    and "\<not> (\<exists>r \<in> set (bookingsCollection s). booked_for c r)"
  shows "snd (serve_bookings ObjectId s (rq # reqs)) =
           Reply 200 (InsertResult (next_oid s)) #
           replicate (length reqs) (Reply 400 (Message ''This car is already booked'')) \<and>
         length (filter (booked_for c) (bookingsCollection (fst (serve_bookings ObjectId s (rq # reqs))))) = 1"
proof -
  obtain s1 r where first: "post_bookings ObjectId s rq = (s1, r)"
    by (cases "post_bookings ObjectId s rq")
  have c0: "map_of (body rq) ''carId'' = c" and st0: "map_of (body rq) ''status'' = Some (JStr ''Booked'')"
    using assms(1) by simp_all
  have free: "\<not> (\<exists>r \<in> set (bookingsCollection s). booked_for (map_of (body rq) ''carId'') r)"
    using assms(3) c0 by simp
  have r: "r = Reply 200 (InsertResult (next_oid s))"
    and b1: "bookingsCollection s1 = bookingsCollection s @ [\<lparr>oid = next_oid s, content = body rq\<rparr>]"
    using first assms(2) c0 post_bookings_free [OF free, of ObjectId]
    by (auto split: oid_result.splits)
  have new: "booked_for c \<lparr>oid = next_oid s, content = body rq\<rparr>"
    using c0 st0 by (simp add: booked_for_def)
  then have taken: "\<exists>r \<in> set (bookingsCollection s1). booked_for c r"
    by (simp add: b1)
  have rest: "serve_bookings ObjectId s1 reqs =
      (s1, replicate (length reqs) (Reply 400 (Message ''This car is already booked'')))"
    using assms(1) by (intro serve_bookings_taken [OF taken]) simp
  have "filter (booked_for c) (bookingsCollection s) = []"
    using assms(3) by (simp add: filter_empty_conv)
  then have "length (filter (booked_for c) (bookingsCollection s1)) = 1"
    using new by (simp add: b1)
  then show ?thesis
    by (simp add: first rest r)
qed

theorem sequential_bookings_exclusive_witness:
  "snd (serve_bookings hex_ObjectId (two_owner_store\<lparr>bookingsCollection := []\<rparr>)
     [blank_request\<lparr>body := [(''carId'', JStr ''000000000000000000000001''),
                              (''userEmail'', JStr ''b@rent.io''), (''status'', JStr ''Booked'')]\<rparr>,
      blank_request\<lparr>body := [(''carId'', JStr ''000000000000000000000001''),
                              (''userEmail'', JStr ''c@rent.io''), (''status'', JStr ''Booked'')]\<rparr>]) =
     [Reply 200 (InsertResult 5), Reply 400 (Message ''This car is already booked'')]"
  using sequential_bookings_exclusive
      [where ObjectId = hex_ObjectId and s = "two_owner_store\<lparr>bookingsCollection := []\<rparr>" and
        c = "Some (JStr ''000000000000000000000001'')" and
        rq = "blank_request\<lparr>body := [(''carId'', JStr ''000000000000000000000001''),
                              (''userEmail'', JStr ''b@rent.io''), (''status'', JStr ''Booked'')]\<rparr>" and
        reqs = "[blank_request\<lparr>body := [(''carId'', JStr ''000000000000000000000001''),
                              (''userEmail'', JStr ''c@rent.io''), (''status'', JStr ''Booked'')]\<rparr>]"]
  by (simp add: blank_request_def two_owner_store_def hex_ObjectId_def hex_digit_def)

text \<open>
  Claim C1 fails on the code. Two requests to book Ann's listing arrive together, each with
  a well-formed payload of status Booked, and the store serves their calls in turn: both
  \<^verbatim>\<open>findOne\<close> calls come before either \<^verbatim>\<open>insertOne\<close>. Both requests are answered
  200 with an insertion result, none is answered 400, and the bookings collection ends
  with two Booked records for the one listing.
\<close>

theorem concurrent_double_booking:
  "run_schedule hex_ObjectId [0, 1, 0, 1, 0, 1]
     (two_owner_store\<lparr>bookingsCollection := []\<rparr>,
      [([(''carId'', JStr ''000000000000000000000001''), (''userEmail'', JStr ''b@rent.io''),
         (''status'', JStr ''Booked'')], AwaitFindOne),
       ([(''carId'', JStr ''000000000000000000000001''), (''userEmail'', JStr ''c@rent.io''),
         (''status'', JStr ''Booked'')], AwaitFindOne)]) =
     (two_owner_store
        \<lparr>carsCollection :=
           [\<lparr>oid = 1, content = [(''name'', JStr ''Toyota Corolla''), (''providerEmail'', JStr ''a@rent.io''),
                                   (''status'', JStr ''Booked'')]\<rparr>,
            \<lparr>oid = 2, content = [(''name'', JStr ''Honda Civic''), (''providerEmail'', JStr ''b@rent.io'')]\<rparr>],
         bookingsCollection :=
           [\<lparr>oid = 5, content = [(''carId'', JStr ''000000000000000000000001''),
                                   (''userEmail'', JStr ''b@rent.io''), (''status'', JStr ''Booked'')]\<rparr>,
            \<lparr>oid = 6, content = [(''carId'', JStr ''000000000000000000000001''),
                                   (''userEmail'', JStr ''c@rent.io''), (''status'', JStr ''Booked'')]\<rparr>],
         next_oid := 7\<rparr>,
      [([(''carId'', JStr ''000000000000000000000001''), (''userEmail'', JStr ''b@rent.io''),
         (''status'', JStr ''Booked'')], Finished (Reply 200 (InsertResult 5))),
       ([(''carId'', JStr ''000000000000000000000001''), (''userEmail'', JStr ''c@rent.io''),
         (''status'', JStr ''Booked'')], Finished (Reply 200 (InsertResult 6)))])"
  by (simp add: two_owner_store_def hex_ObjectId_def hex_digit_def book_step_def findOne_def
      booked_filter_def field_is_def or_null_def insertOne_def set_fields_def)

end
